theory Spec2Isabelle
  imports Complex_Main "HOL-Library.Word"
begin

section \<open>Frame classification (the sampling loop of the data handler)\<close>

text \<open>
  The \<open>data\<close> handler installed by \<open>setupUserAudioReceiver\<close> first decides whether
  the received chunk holds audio:
  \<^verbatim>\<open>
  const sampleSize = Math.max(100, Math.floor(chunk.length * 0.2));
  const step = Math.floor(chunk.length / sampleSize);
  for (let i = 0; i < chunk.length; i += step) {
    if (chunk[i] !== 0) { containsAudio = true; break; }
  }
  \<close>
  A chunk is a Node Buffer, a list of bytes. \<open>Math.floor(n * 0.2)\<close> is \<open>n div 5\<close> for
  every length a Buffer can have. The loop has no bound of its own, so it is a
  partial function: the value \<open>None\<close> means that the loop never leaves.
\<close>

type_synonym byte = "8 word"

definition sampleSize :: "nat \<Rightarrow> nat" where
  "sampleSize len = max 100 (len div 5)"

definition step :: "nat \<Rightarrow> nat" where
  "step len = len div sampleSize len"

partial_function (option) scan :: "byte list \<Rightarrow> nat \<Rightarrow> nat \<Rightarrow> bool option" where
  "scan chunk stp i =
     (if i < length chunk
      then (if chunk ! i \<noteq> 0 then Some True else scan chunk stp (i + stp))
      else Some False)"

definition containsAudio :: "byte list \<Rightarrow> bool option" where
  "containsAudio chunk = scan chunk (step (length chunk)) 0"

text \<open>
  The indices the loop header can reach: the multiples of \<open>step\<close> below the length
  (only index \<open>0\<close> when \<open>step\<close> is \<open>0\<close>, since \<open>0 dvd i\<close> holds for \<open>i = 0\<close> alone).
\<close>

definition sampledIdx :: "nat \<Rightarrow> nat list" where
  "sampledIdx len = filter (\<lambda>i. step len dvd i) [0..<len]"


section \<open>The voice-activity state of one receiver\<close>

text \<open>
  Each call of \<open>setupUserAudioReceiver\<close> that gets past its guard creates one closure:
  the variables \<open>silenceStart\<close>, \<open>isSpeaking\<close>, \<open>lastActivity\<close>,
  \<open>recordingStartTime\<close>, the watchdog interval (armed until \<open>clearInterval\<close>) and the
  subscribed stream (live until \<open>destroy\<close>), together with the captured arguments.
  Times are the values of \<open>Date.now()\<close>, one reading per handler run. The file and
  encoder streams behind \<open>outputPath\<close> are not part of the model.
\<close>

record connection =
  joinGuildId :: string
  joinChannelId :: string

record pipeline =
  p_conn :: connection
  p_userId :: string
  p_username :: string
  guildUserId :: string
  silenceStart :: "int option"
  isSpeaking :: bool
  lastActivity :: int
  recordingStartTime :: int
  watchdogArmed :: bool
  streamDestroyed :: bool

text \<open>
  The two things the handler reports, both with \<open>debugLog\<close>: that the user started
  speaking, and that the user finished speaking (the utterance boundary).
\<close>

datatype event = SpeechStarted | SpeechFinished

text \<open>
  \<open>parseInt(process.env.SILENCE_DURATION) || 2000\<close>: the argument is the parsed
  variable, \<open>None\<close> when it does not parse (\<open>NaN\<close>); \<open>0\<close> is falsy as well.
\<close>

definition silenceThreshold :: "int option \<Rightarrow> int" where
  "silenceThreshold cfg = (case cfg of None \<Rightarrow> 2000 | Some v \<Rightarrow> if v = 0 then 2000 else v)"

record handlerEnv =
  now :: int
  silenceDuration :: "int option"
  guildCached :: bool

text \<open>
  The body of the \<open>try\<close> block that follows \<open>isSpeaking = false\<close>. When the guild is
  not in the client's cache, \<open>guild.channels\<close> raises at once. Otherwise
  \<open>recordingStartTime\<close> and \<open>outputPath\<close> are renewed and the next statement assigns
  to \<open>wavEncoder\<close>, which \<open>setupUserAudioReceiver\<close> declared with \<open>const\<close> when it
  built the first encoder: the assignment raises a TypeError. In both cases the \<open>catch\<close> of the block logs the
  error and the handler returns, so the statements after the assignment (the
  dispatch of the finished recording, modelled below as \<open>dispatchUtterance\<close>)
  are not reached from here.
\<close>

definition endOfSpeech :: "handlerEnv \<Rightarrow> pipeline \<Rightarrow> pipeline" where
  "endOfSpeech env p = (if guildCached env then p\<lparr>recordingStartTime := now env\<rparr> else p)"

text \<open>
  The two branches of the handler:
  \<^verbatim>\<open>
  if (containsAudio && !isSpeaking) {
    isSpeaking = true;
    silenceStart = null;
  } else if (!containsAudio && isSpeaking) {
    if (!silenceStart) {
      silenceStart = Date.now();
    } else if (Date.now() - silenceStart > (parseInt(process.env.SILENCE_DURATION) || 2000)) {
      isSpeaking = false;
      try { ... } catch (processingError) { ... }
    }
  }
  \<close>
  \<open>!silenceStart\<close> holds for \<open>null\<close> and for the number \<open>0\<close>. There is no branch for
  an active frame while speaking.
\<close>

definition segment :: "handlerEnv \<Rightarrow> bool \<Rightarrow> pipeline \<Rightarrow> pipeline \<times> event list" where
  "segment env active p =
     (if active \<and> \<not> isSpeaking p
      then (p\<lparr>isSpeaking := True, silenceStart := None\<rparr>, [SpeechStarted])
      else if \<not> active \<and> isSpeaking p
      then (case silenceStart p of
              None \<Rightarrow> (p\<lparr>silenceStart := Some (now env)\<rparr>, [])
            | Some s \<Rightarrow>
                if s = 0 then (p\<lparr>silenceStart := Some (now env)\<rparr>, [])
                else if now env - s > silenceThreshold (silenceDuration env)
                then (endOfSpeech env (p\<lparr>isSpeaking := False\<rparr>), [SpeechFinished])
                else (p, []))
      else (p, []))"

definition onData :: "handlerEnv \<Rightarrow> byte list \<Rightarrow> pipeline \<Rightarrow> (pipeline \<times> event list) option" where
  "onData env chunk p =
     (case containsAudio chunk of
        None \<Rightarrow> None
      | Some active \<Rightarrow> Some (segment env active (p\<lparr>lastActivity := now env\<rparr>)))"

text \<open>
  A sequence of chunks, each with its arrival time, delivered to the handler in
  order; the events of all chunks are collected. The result is \<open>None\<close> when the
  handler does not return from one of them.
\<close>

fun deliver ::
  "int option \<Rightarrow> bool \<Rightarrow> (int \<times> byte list) list \<Rightarrow> pipeline \<Rightarrow> (pipeline \<times> event list) option" where
  "deliver cfg g [] p = Some (p, [])"
| "deliver cfg g ((t, chunk) # fs) p =
     (case onData \<lparr>now = t, silenceDuration = cfg, guildCached = g\<rparr> chunk p of
        None \<Rightarrow> None
      | Some (p1, e1) \<Rightarrow>
          (case deliver cfg g fs p1 of
             None \<Rightarrow> None
           | Some (p2, e2) \<Rightarrow> Some (p2, e1 @ e2)))"

definition newPipeline :: "connection \<Rightarrow> string \<Rightarrow> string \<Rightarrow> int \<Rightarrow> pipeline" where
  "newPipeline c uid uname t =
     \<lparr>p_conn = c, p_userId = uid, p_username = uname,
      guildUserId = joinGuildId c @ ''-'' @ uid,
      silenceStart = None, isSpeaking = False, lastActivity = t,
      recordingStartTime = t, watchdogArmed = True, streamDestroyed = False\<rparr>"


section \<open>Stored users and their statistics (models/User.js)\<close>

text \<open>
  Counters and durations are integral JavaScript numbers and are modelled as \<open>int\<close>;
  the confidence average is a real number (the rounding of doubles is not modelled).
  A field that the caller may leave out is an \<open>option\<close>.
\<close>

record transcriptionData =
  content :: string
  channelId :: string
  channelName :: string
  guildId :: string
  guildName :: string
  duration :: "int option"
  confidenceScore :: "real option"
  audioFilePath :: "string option"

record transcription = transcriptionData +
  timestamp :: int

record stats =
  totalTranscriptions :: int
  totalSpeakingTime :: int
  averageConfidence :: real

record user =
  userId :: string
  username :: string
  displayName :: "string option"
  firstSeen :: int
  lastActive :: int
  transcriptions :: "transcription list"
  stats :: stats

text \<open>
  Pushing onto the schema array makes a subdocument, with the schema defaults for
  \<open>timestamp\<close>, \<open>duration\<close> and \<open>confidenceScore\<close>.
\<close>

definition castTranscription :: "int \<Rightarrow> transcriptionData \<Rightarrow> transcription" where
  "castTranscription t td =
     \<lparr>content = content td, channelId = channelId td, channelName = channelName td,
      guildId = guildId td, guildName = guildName td,
      duration = Some (case duration td of None \<Rightarrow> 0 | Some d \<Rightarrow> d),
      confidenceScore = Some (case confidenceScore td of None \<Rightarrow> 0 | Some c \<Rightarrow> c),
      audioFilePath = audioFilePath td, timestamp = t\<rparr>"

text \<open>
  \<open>addTranscription\<close> up to its final \<open>this.save()\<close>, which the callers' models
  decide. \<open>x || 0\<close> is \<open>0\<close> for a missing \<open>x\<close>; \<open>if (x)\<close> fails for a missing \<open>x\<close>
  and for \<open>0\<close>.
\<close>

definition addTranscription :: "int \<Rightarrow> transcriptionData \<Rightarrow> user \<Rightarrow> user" where
  "addTranscription t td u =
     (let n = totalTranscriptions (stats u) + 1;
          spoken = totalSpeakingTime (stats u) + (case duration td of None \<Rightarrow> 0 | Some d \<Rightarrow> d);
          avg = (case confidenceScore td of
                   None \<Rightarrow> averageConfidence (stats u)
                 | Some c \<Rightarrow>
                     if c = 0 then averageConfidence (stats u)
                     else (averageConfidence (stats u) * of_int (n - 1) + c) / of_int n)
      in u\<lparr>transcriptions := transcriptions u @ [castTranscription t td],
            stats := \<lparr>totalTranscriptions = n, totalSpeakingTime = spoken, averageConfidence = avg\<rparr>,
            lastActive := t\<rparr>)"

definition newUser :: "string \<Rightarrow> string \<Rightarrow> string option \<Rightarrow> int \<Rightarrow> user" where
  "newUser uid uname dname t =
     \<lparr>userId = uid, username = uname, displayName = dname, firstSeen = t, lastActive = t,
      transcriptions = [],
      stats = \<lparr>totalTranscriptions = 0, totalSpeakingTime = 0, averageConfidence = 0\<rparr>\<rparr>"


section \<open>Transcription history (getUserTranscriptions)\<close>

datatype exn = MissingApiKey | ProviderError | DbError | TypeError

record options =
  limit :: "int option"
  skip :: "int option"
  o_guildId :: "string option"
  o_channelId :: "string option"
  startDate :: "int option"
  endDate :: "int option"

text \<open>\<open>User.findOne({ userId })\<close>: the stored record if any, or a database error.\<close>

definition findOne :: "bool \<Rightarrow> (string \<rightharpoonup> user) \<Rightarrow> string \<Rightarrow> exn + user option" where
  "findOne fails db uid = (if fails then Inl DbError else Inr (db uid))"

text \<open>\<open>Array.prototype.slice(start, end)\<close> on integers, negative ones counted from the end.\<close>

definition jsSlice :: "int \<Rightarrow> int \<Rightarrow> 'a list \<Rightarrow> 'a list" where
  "jsSlice start fin xs =
     (let len = int (length xs);
          k = (if start < 0 then max (len + start) 0 else min start len);
          e = (if fin < 0 then max (len + fin) 0 else min fin len)
      in take (nat (e - k)) (drop (nat k) xs))"

text \<open>
  A string option filters when it is a non-empty string; a date option (a \<open>Date\<close>
  or a date string, given here by its time value) filters whenever it is present.
  \<open>sort\<close> with the comparator \<open>b.timestamp - a.timestamp\<close> is a stable sort by
  descending timestamp.
\<close>

definition applyFilters :: "options \<Rightarrow> transcription list \<Rightarrow> transcription list" where
  "applyFilters opts ts =
     (let t1 = (case o_guildId opts of
                  None \<Rightarrow> ts
                | Some g \<Rightarrow> if g = [] then ts else filter (\<lambda>t. guildId t = g) ts);
          t2 = (case o_channelId opts of
                  None \<Rightarrow> t1
                | Some c \<Rightarrow> if c = [] then t1 else filter (\<lambda>t. channelId t = c) t1);
          t3 = (case startDate opts of
                  None \<Rightarrow> t2
                | Some d \<Rightarrow> filter (\<lambda>t. timestamp t \<ge> d) t2);
          t4 = (case endDate opts of
                  None \<Rightarrow> t3
                | Some d \<Rightarrow> filter (\<lambda>t. timestamp t \<le> d) t3)
      in t4)"

definition newestFirst :: "transcription list \<Rightarrow> transcription list" where
  "newestFirst ts = sort_key (\<lambda>t. - timestamp t) ts"

text \<open>\<open>options.limit || 100\<close> and \<open>options.skip || 0\<close>.\<close>

definition pageLimit :: "options \<Rightarrow> int" where
  "pageLimit opts = (case limit opts of None \<Rightarrow> 100 | Some l \<Rightarrow> if l = 0 then 100 else l)"

definition pageSkip :: "options \<Rightarrow> int" where
  "pageSkip opts = (case skip opts of None \<Rightarrow> 0 | Some k \<Rightarrow> k)"

text \<open>An exception anywhere in the \<open>try\<close> block gives the empty list.\<close>

definition getUserTranscriptions ::
  "bool \<Rightarrow> (string \<rightharpoonup> user) \<Rightarrow> string \<Rightarrow> options \<Rightarrow> transcription list" where
  "getUserTranscriptions dbFails db uid opts =
     (case findOne dbFails db uid of
        Inl e \<Rightarrow> []
      | Inr None \<Rightarrow> []
      | Inr (Some u) \<Rightarrow>
          jsSlice (pageSkip opts) (pageSkip opts + pageLimit opts)
            (newestFirst (applyFilters opts (transcriptions u))))"


section \<open>Process state: registries, timers, result sink, storage\<close>

text \<open>
  The module-level maps \<open>userAudioStreams\<close> and \<open>userSessions\<close>, keyed by
  \<open>guildId-userId\<close>; the closures of the receivers created so far, found by the
  handle of the stream each one subscribed; the pending \<open>setTimeout\<close> callbacks;
  the messages sent to text channels; the stored users; and the numbers of requests
  sent to the transcription API and of calls of \<open>transcribeAudio\<close>.
\<close>

record userSession =
  sessionUsername :: string
  lastTranscription :: int

datatype timer =
    Reconnect connection string string
  | Recover connection string string
  | Retry connection string string

record world =
  userAudioStreams :: "string \<rightharpoonup> nat"
  userSessions :: "string \<rightharpoonup> userSession"
  pipelines :: "nat \<rightharpoonup> pipeline"
  nextStream :: nat
  timeouts :: "timer list"
  posts :: "string list"
  users :: "string \<rightharpoonup> user"
  providerCalls :: nat
  directCalls :: nat

text \<open>
  \<open>setupUserAudioReceiver\<close>. The flag says whether \<open>receiver.subscribe\<close> returns;
  when it raises, the \<open>catch\<close> schedules a retry. The other statements of the
  \<open>try\<close> block are taken not to raise.
\<close>

definition setupUserAudioReceiver ::
  "connection \<Rightarrow> string \<Rightarrow> string \<Rightarrow> int \<Rightarrow> bool \<Rightarrow> world \<Rightarrow> world" where
  "setupUserAudioReceiver c uid uname t subscribes w =
     (let key = joinGuildId c @ ''-'' @ uid in
      if userAudioStreams w key \<noteq> None then w
      else
        let w1 = w\<lparr>userSessions := (userSessions w)
                       (key \<mapsto> \<lparr>sessionUsername = uname, lastTranscription = t\<rparr>)\<rparr>
        in if subscribes
           then w1\<lparr>userAudioStreams := (userAudioStreams w1)(key \<mapsto> nextStream w1),
                   pipelines := (pipelines w1)(nextStream w1 \<mapsto> newPipeline c uid uname t),
                   nextStream := nextStream w1 + 1\<rparr>
           else w1\<lparr>timeouts := timeouts w1 @ [Retry c uid uname]\<rparr>)"





text \<open>
  The callbacks given to \<open>setTimeout\<close>: after a watchdog reset (1 s), after a
  \<open>close\<close> (2 s, only when nothing is registered and the connection is not marked
  destroyed) and after a failed setup (3 s, only when nothing is registered).
\<close>

fun runTimer :: "timer \<Rightarrow> int \<Rightarrow> bool \<Rightarrow> bool \<Rightarrow> world \<Rightarrow> world" where
  "runTimer (Reconnect c uid uname) t subscribes destroyed w =
     setupUserAudioReceiver c uid uname t subscribes w"
| "runTimer (Recover c uid uname) t subscribes destroyed w =
     (if userAudioStreams w (joinGuildId c @ ''-'' @ uid) = None \<and> \<not> destroyed
      then setupUserAudioReceiver c uid uname t subscribes w else w)"
| "runTimer (Retry c uid uname) t subscribes destroyed w =
     (if userAudioStreams w (joinGuildId c @ ''-'' @ uid) = None
      then setupUserAudioReceiver c uid uname t subscribes w else w)"

definition fireTimeout :: "nat \<Rightarrow> int \<Rightarrow> bool \<Rightarrow> bool \<Rightarrow> world \<Rightarrow> world" where
  "fireTimeout i t subscribes destroyed w =
     (if i < length (timeouts w)
      then runTimer (timeouts w ! i) t subscribes destroyed
             (w\<lparr>timeouts := take i (timeouts w) @ drop (Suc i) (timeouts w)\<rparr>)
      else w)"

text \<open>
  Several join events for one speaker on one connection, handled one after the
  other: each calls \<open>setupUserAudioReceiver\<close> with its own user name, time and
  outcome of \<open>subscribe\<close>.
\<close>

fun joinAll :: "connection \<Rightarrow> string \<Rightarrow> (string \<times> int \<times> bool) list \<Rightarrow> world \<Rightarrow> world" where
  "joinAll c uid [] w = w"
| "joinAll c uid ((uname, t, subscribes) # js) w =
     joinAll c uid js (setupUserAudioReceiver c uid uname t subscribes w)"

definition emptyWorld :: world where
  "emptyWorld =
     \<lparr>userAudioStreams = Map.empty, userSessions = Map.empty, pipelines = Map.empty,
      nextStream = 0, timeouts = [], posts = [], users = Map.empty,
      providerCalls = 0, directCalls = 0\<rparr>"


section \<open>Transcription of a finished recording\<close>

text \<open>
  What a dispatch meets when it runs: whether the storage path is switched on and
  connected, the size of the recording (\<open>None\<close>: no such file), whether an API key
  is set, the answer of the transcription API to each request (by the number of
  requests sent before), the state of the storage connection inside the service and
  the outcome of each storage operation, whether the guild's system channel is
  cached, and the clock.
\<close>

datatype providerOutcome = ProviderFails | ProviderReplies string "real option"

record dispatchEnv =
  useMongo :: bool
  fileSize :: "nat option"
  apiKey :: bool
  provider :: "nat \<Rightarrow> providerOutcome"
  dbReady :: bool
  findOneFails :: bool
  saveUserFails :: bool
  saveTranscriptionFails :: bool
  storeAudioFiles :: bool
  textChannel :: bool
  clock :: int

record userData =
  ud_userId :: string
  ud_username :: string
  ud_displayName :: string

record contextData =
  cx_guildId :: string
  cx_guildName :: string
  cx_channelId :: string
  cx_channelName :: string

record serviceResult =
  r_text :: string
  r_userId :: string
  r_username :: string
  r_duration :: int

record directResult =
  dr_text :: string
  dr_userId :: string

text \<open>
  The \<open>try\<close> block of \<open>transcribeAndSave\<close>, an exception being the value \<open>Inl\<close>:
  the file checks, the API request, the storage readiness check, find-or-create of
  the user, and \<open>addTranscription\<close> with its save.
\<close>

definition transcribeAndSaveBody ::
  "dispatchEnv \<Rightarrow> string \<Rightarrow> userData \<Rightarrow> contextData \<Rightarrow> int \<Rightarrow> world
     \<Rightarrow> (exn + serviceResult option) \<times> world" where
  "transcribeAndSaveBody env path ud cx startTime w =
     (case fileSize env of
        None \<Rightarrow> (Inr None, w)
      | Some sz \<Rightarrow>
          if sz < 1000 then (Inr None, w)
          else if \<not> apiKey env then (Inl MissingApiKey, w)
          else
            let dur = (if startTime = 0 then 0 else clock env - startTime);
                w1 = w\<lparr>providerCalls := providerCalls w + 1\<rparr>
            in (case provider env (providerCalls w) of
                 ProviderFails \<Rightarrow> (Inl ProviderError, w1)
               | ProviderReplies txt conf \<Rightarrow>
                   if \<not> dbReady env
                   then (Inr (Some \<lparr>r_text = txt, r_userId = ud_userId ud,
                                    r_username = ud_username ud, r_duration = dur\<rparr>), w1)
                   else if findOneFails env then (Inl DbError, w1)
                   else
                     (case (case users w1 (ud_userId ud) of
                              Some u \<Rightarrow> Inr (u, w1)
                            | None \<Rightarrow>
                                if saveUserFails env then Inl DbError
                                else
                                  let u = newUser (ud_userId ud) (ud_username ud)
                                            (Some (if ud_displayName ud = [] then ud_username ud
                                                   else ud_displayName ud))
                                            (clock env)
                                  in Inr (u, w1\<lparr>users := (users w1)(ud_userId ud \<mapsto> u)\<rparr>)) of
                        Inl e \<Rightarrow> (Inl e, w1)
                      | Inr (u, w2) \<Rightarrow>
                          let td = \<lparr>content = txt, channelId = cx_channelId cx,
                                    channelName = cx_channelName cx, guildId = cx_guildId cx,
                                    guildName = cx_guildName cx, duration = Some dur,
                                    confidenceScore =
                                      Some (case conf of None \<Rightarrow> 0
                                            | Some c \<Rightarrow> if c = 0 then 0 else c * 100),
                                    audioFilePath =
                                      (if storeAudioFiles env then Some path else None)\<rparr>
                          in if saveTranscriptionFails env then (Inl DbError, w2)
                             else (Inr (Some \<lparr>r_text = txt, r_userId = ud_userId ud,
                                              r_username = (if ud_username ud = []
                                                            then ud_displayName ud
                                                            else ud_username ud),
                                              r_duration = dur\<rparr>),
                                   w2\<lparr>users := (users w2)
                                          (ud_userId ud \<mapsto> addTranscription (clock env) td u)\<rparr>))))"

text \<open>
  The \<open>catch\<close> of \<open>transcribeAndSave\<close> logs the exception and returns \<open>null\<close>. The
  result is the settled promise: \<open>Inr\<close> a fulfilled one, \<open>Inl\<close> a rejected one.
\<close>

definition transcribeAndSave ::
  "dispatchEnv \<Rightarrow> string \<Rightarrow> userData \<Rightarrow> contextData \<Rightarrow> int \<Rightarrow> world
     \<Rightarrow> (exn + serviceResult option) \<times> world" where
  "transcribeAndSave env path ud cx startTime w =
     (case transcribeAndSaveBody env path ud cx startTime w of
        (Inl e, w') \<Rightarrow> (Inr None, w')
      | (Inr r, w') \<Rightarrow> (Inr r, w'))"

text \<open>\<open>transcribeAudio\<close>, the direct request; every failure is the result \<open>null\<close>.\<close>

definition transcribeAudio ::
  "dispatchEnv \<Rightarrow> string \<Rightarrow> string \<Rightarrow> world \<Rightarrow> directResult option \<times> world" where
  "transcribeAudio env path uid w =
     (let w0 = w\<lparr>directCalls := directCalls w + 1\<rparr> in
      case fileSize env of
        None \<Rightarrow> (None, w0)
      | Some sz \<Rightarrow>
          if sz < 1000 then (None, w0)
          else if \<not> apiKey env then (None, w0)
          else
            let w1 = w0\<lparr>providerCalls := providerCalls w0 + 1\<rparr>
            in (case provider env (providerCalls w0) of
                  ProviderFails \<Rightarrow> (None, w1)
                | ProviderReplies txt conf \<Rightarrow>
                    (if txt \<noteq> [] then Some \<lparr>dr_text = txt, dr_userId = uid\<rparr> else None, w1)))"

text \<open>
  What the end-of-speech code has captured when it starts a dispatch: the key, the
  speaker, the guild, the voice channel (\<open>None\<close> when it is not cached), and the path
  and start time of the finished recording.
\<close>

record dispatchCtx =
  d_guildUserId :: string
  d_userId :: string
  d_username :: string
  d_displayName :: string
  d_guildId :: string
  d_guildName :: string
  d_channel :: "(string \<times> string) option"
  currentOutputPath :: string
  currentStartTime :: int

text \<open>
  \<open>handleTranscription\<close>, the callback of the direct request. It reads
  \<open>userSessions\<close> under the captured key when it runs.
\<close>

definition handleTranscription ::
  "dispatchEnv \<Rightarrow> dispatchCtx \<Rightarrow> directResult option \<Rightarrow> world \<Rightarrow> world" where
  "handleTranscription env ctx result w =
     (case result of
        None \<Rightarrow> w
      | Some r \<Rightarrow>
          if dr_text r = [] then w
          else (case userSessions w (d_guildUserId ctx) of
                  None \<Rightarrow> w
                | Some us \<Rightarrow>
                    if d_channel ctx = None then w
                    else w\<lparr>posts := posts w @
                                (if textChannel env
                                 then [''**'' @ sessionUsername us @ ''**: '' @ dr_text r]
                                 else []),
                           userSessions := (userSessions w)
                                (d_guildUserId ctx \<mapsto> us\<lparr>lastTranscription := clock env\<rparr>)\<rparr>))"

text \<open>
  The dispatch: with storage, \<open>transcribeAndSave\<close>, its \<open>then\<close> callback and its
  \<open>catch\<close> callback (the fallback to \<open>transcribeAudio\<close>); without storage,
  \<open>transcribeAudio\<close> and \<open>handleTranscription\<close>. Building \<open>contextData\<close> reads
  \<open>channel.id\<close>, which raises when the channel is not cached; the enclosing \<open>catch\<close>
  then ends the dispatch before any request.
\<close>

definition dispatchUtterance :: "dispatchEnv \<Rightarrow> dispatchCtx \<Rightarrow> world \<Rightarrow> world" where
  "dispatchUtterance env ctx w =
     (if useMongo env
      then (case d_channel ctx of
              None \<Rightarrow> w
            | Some (cid, cname) \<Rightarrow>
                (case transcribeAndSave env (currentOutputPath ctx)
                        \<lparr>ud_userId = d_userId ctx, ud_username = d_username ctx,
                         ud_displayName = d_displayName ctx\<rparr>
                        \<lparr>cx_guildId = d_guildId ctx, cx_guildName = d_guildName ctx,
                         cx_channelId = cid, cx_channelName = cname\<rparr>
                        (currentStartTime ctx) w of
                   (Inr None, w1) \<Rightarrow> w1
                 | (Inr (Some res), w1) \<Rightarrow>
                     if r_text res = [] then w1
                     else w1\<lparr>posts := posts w1 @
                                 (if textChannel env
                                  then [''**'' @ r_username res @ ''**: '' @ r_text res]
                                  else [])\<rparr>
                 | (Inl e, w1) \<Rightarrow>
                     (case transcribeAudio env (currentOutputPath ctx) (d_guildUserId ctx) w1 of
                        (result, w2) \<Rightarrow> handleTranscription env ctx result w2)))
      else (case transcribeAudio env (currentOutputPath ctx) (d_guildUserId ctx) w of
              (result, w1) \<Rightarrow> handleTranscription env ctx result w1))"


section \<open>The earlier versions of the service and of the dispatch\<close>

text \<open>
  The repository holds a second copy of each: \<open>transcribeAndSave\<close> of
  \<open>src/services/transcriptionService.js\<close>, and the first \<open>transcribeAudio\<close> and
  the first \<open>data\<close> handler of the bot file. They are modelled here under the
  suffix \<open>_v1\<close>. \<open>FormData\<close> is taken to be available to them.
\<close>

text \<open>\<open>User.findOrCreateUser\<close> of \<open>models/User.js\<close>.\<close>

definition findOrCreateUser ::
  "dispatchEnv \<Rightarrow> string \<Rightarrow> string \<Rightarrow> string option \<Rightarrow> world \<Rightarrow> exn + user \<times> world" where
  "findOrCreateUser env uid uname dname w =
     (if findOneFails env then Inl DbError
      else (case users w uid of
              Some u \<Rightarrow> Inr (u, w)
            | None \<Rightarrow>
                if saveUserFails env then Inl DbError
                else Inr (newUser uid uname dname (clock env),
                          w\<lparr>users := (users w)(uid \<mapsto> newUser uid uname dname (clock env))\<rparr>)))"

text \<open>
  \<open>transcribeAndSave\<close> of \<open>src/services/transcriptionService.js\<close>: the file must
  exist; its size is logged, not tested; there is no test of the API key.
\<close>

definition transcribeAndSaveBody_v1 ::
  "dispatchEnv \<Rightarrow> string \<Rightarrow> userData \<Rightarrow> contextData \<Rightarrow> int \<Rightarrow> world
     \<Rightarrow> (exn + serviceResult option) \<times> world" where
  "transcribeAndSaveBody_v1 env path ud cx startTime w =
     (case fileSize env of
        None \<Rightarrow> (Inr None, w)
      | Some sz \<Rightarrow>
          let dur = (if startTime = 0 then 0 else clock env - startTime);
              w1 = w\<lparr>providerCalls := providerCalls w + 1\<rparr>
          in (case provider env (providerCalls w) of
                ProviderFails \<Rightarrow> (Inl ProviderError, w1)
              | ProviderReplies txt conf \<Rightarrow>
                  if \<not> dbReady env
                  then (Inr (Some \<lparr>r_text = txt, r_userId = ud_userId ud,
                                   r_username = ud_username ud, r_duration = dur\<rparr>), w1)
                  else
                    (case findOrCreateUser env (ud_userId ud) (ud_username ud)
                            (Some (if ud_displayName ud = [] then ud_username ud
                                   else ud_displayName ud)) w1 of
                       Inl e \<Rightarrow> (Inl e, w1)
                     | Inr (u, w2) \<Rightarrow>
                         let td = \<lparr>content = txt, channelId = cx_channelId cx,
                                   channelName = cx_channelName cx, guildId = cx_guildId cx,
                                   guildName = cx_guildName cx, duration = Some dur,
                                   confidenceScore =
                                     Some (case conf of None \<Rightarrow> 0 | Some c \<Rightarrow> c),
                                   audioFilePath =
                                     (if storeAudioFiles env then Some path else None)\<rparr>
                         in if saveTranscriptionFails env then (Inl DbError, w2)
                            else (Inr (Some \<lparr>r_text = txt, r_userId = ud_userId ud,
                                             r_username = ud_username ud, r_duration = dur\<rparr>),
                                  w2\<lparr>users := (users w2)
                                         (ud_userId ud \<mapsto> addTranscription (clock env) td u)\<rparr>))))"

definition transcribeAndSave_v1 ::
  "dispatchEnv \<Rightarrow> string \<Rightarrow> userData \<Rightarrow> contextData \<Rightarrow> int \<Rightarrow> world
     \<Rightarrow> (exn + serviceResult option) \<times> world" where
  "transcribeAndSave_v1 env path ud cx startTime w =
     (case transcribeAndSaveBody_v1 env path ud cx startTime w of
        (Inl e, w') \<Rightarrow> (Inr None, w')
      | (Inr r, w') \<Rightarrow> (Inr r, w'))"

text \<open>
  The first \<open>transcribeAudio\<close>: the request is sent without any test of the file or
  of the key; the result carries the text of the answer whatever it is.
\<close>

definition transcribeAudio_v1 ::
  "dispatchEnv \<Rightarrow> string \<Rightarrow> string \<Rightarrow> world \<Rightarrow> directResult option \<times> world" where
  "transcribeAudio_v1 env path uid w =
     (let w1 = w\<lparr>directCalls := directCalls w + 1, providerCalls := providerCalls w + 1\<rparr>
      in (case provider env (providerCalls w) of
            ProviderFails \<Rightarrow> (None, w1)
          | ProviderReplies txt conf \<Rightarrow> (Some \<lparr>dr_text = txt, dr_userId = uid\<rparr>, w1)))"

text \<open>
  The dispatch of the first \<open>data\<close> handler. It has the same two paths and the same
  \<open>handleTranscription\<close>, and no \<open>try\<close> around them: reading \<open>channel.id\<close> of a
  channel that is not cached raises out of the handler.
\<close>

definition dispatchUtterance_v1 :: "dispatchEnv \<Rightarrow> dispatchCtx \<Rightarrow> world \<Rightarrow> exn + world" where
  "dispatchUtterance_v1 env ctx w =
     (if useMongo env
      then (case d_channel ctx of
              None \<Rightarrow> Inl TypeError
            | Some (cid, cname) \<Rightarrow>
                (case transcribeAndSave_v1 env (currentOutputPath ctx)
                        \<lparr>ud_userId = d_userId ctx, ud_username = d_username ctx,
                         ud_displayName = d_displayName ctx\<rparr>
                        \<lparr>cx_guildId = d_guildId ctx, cx_guildName = d_guildName ctx,
                         cx_channelId = cid, cx_channelName = cname\<rparr>
                        (currentStartTime ctx) w of
                   (Inr None, w1) \<Rightarrow> Inr w1
                 | (Inr (Some res), w1) \<Rightarrow>
                     if r_text res = [] then Inr w1
                     else Inr (w1\<lparr>posts := posts w1 @
                                 (if textChannel env
                                  then [''**'' @ r_username res @ ''**: '' @ r_text res]
                                  else [])\<rparr>)
                 | (Inl e, w1) \<Rightarrow>
                     (case transcribeAudio_v1 env (currentOutputPath ctx) (d_guildUserId ctx) w1 of
                        (result, w2) \<Rightarrow> Inr (handleTranscription env ctx result w2))))
      else (case transcribeAudio_v1 env (currentOutputPath ctx) (d_guildUserId ctx) w of
              (result, w1) \<Rightarrow> Inr (handleTranscription env ctx result w1)))"


section \<open>Example data\<close>

definition sampleData :: "real option \<Rightarrow> transcriptionData" where
  "sampleData conf =
     \<lparr>content = ''hello'', channelId = ''c1'', channelName = ''General'', guildId = ''g1'',
      guildName = ''Guild'', duration = Some 1500, confidenceScore = conf,
      audioFilePath = None\<rparr>"

definition sampleTranscription :: "int \<Rightarrow> transcription" where
  "sampleTranscription t = castTranscription t (sampleData None)"

definition sampleUser :: "int list \<Rightarrow> user" where
  "sampleUser ts = (newUser ''u1'' ''alice'' None 0)\<lparr>transcriptions := map sampleTranscription ts\<rparr>"

definition noOptions :: options where
  "noOptions =
     \<lparr>limit = None, skip = None, o_guildId = None, o_channelId = None,
      startDate = None, endDate = None\<rparr>"

definition sampleConn :: connection where
  "sampleConn = \<lparr>joinGuildId = ''g1'', joinChannelId = ''c1''\<rparr>"

definition sampleCtx :: dispatchCtx where
  "sampleCtx =
     \<lparr>d_guildUserId = ''g1-u1'', d_userId = ''u1'', d_username = ''alice'',
      d_displayName = ''Alice'', d_guildId = ''g1'', d_guildName = ''Guild'',
      d_channel = Some (''c1'', ''General''), currentOutputPath = ''g1-u1-1000.wav'',
      currentStartTime = 1000\<rparr>"

text \<open>
  A dispatch with storage switched on and connected, a recording of 5000 bytes, an
  API key, every storage operation succeeding and the system channel cached; the
  answers of the transcription API are the argument.
\<close>

definition sampleEnv :: "(nat \<Rightarrow> providerOutcome) \<Rightarrow> dispatchEnv" where
  "sampleEnv answers =
     \<lparr>useMongo = True, fileSize = Some 5000, apiKey = True, provider = answers,
      dbReady = True, findOneFails = False, saveUserFails = False,
      saveTranscriptionFails = False, storeAudioFiles = False, textChannel = True,
      clock = 4000\<rparr>"

definition alwaysFails :: "nat \<Rightarrow> providerOutcome" where
  "alwaysFails n = ProviderFails"

definition alwaysHi :: "nat \<Rightarrow> providerOutcome" where
  "alwaysHi n = ProviderReplies ''hi'' None"

definition sampleDb :: "int list \<Rightarrow> (string \<rightharpoonup> user)" where
  "sampleDb ts = [''u1'' \<mapsto> sampleUser ts]"

text \<open>
  A receiver is set up at time 1000. In one course of events its stream closes. In
  another its stream reports an error and the speaker joins again at time 2000,
  which sets up a second receiver.
\<close>

definition liveWorld :: world where
  "liveWorld = setupUserAudioReceiver sampleConn ''u1'' ''alice'' 1000 True emptyWorld"



text \<open>The session entry of the speaker alone, and a recording of 800 bytes.\<close>

definition sessionWorld :: world where
  "sessionWorld =
     emptyWorld\<lparr>userSessions :=
       [''g1-u1'' \<mapsto> \<lparr>sessionUsername = ''alice'', lastTranscription = 1000\<rparr>]\<rparr>"

definition smallEnv :: dispatchEnv where
  "smallEnv = (sampleEnv alwaysHi)\<lparr>fileSize := Some 800\<rparr>"

section \<open>Properties of the frame classification\<close>

lemma scan_hit:
  "i < length chunk \<Longrightarrow> chunk ! i \<noteq> 0 \<Longrightarrow> scan chunk stp i = Some True"
  by (subst scan.simps) simp

lemma scan_end: "\<not> i < length chunk \<Longrightarrow> scan chunk stp i = Some False"
  by (subst scan.simps) simp

lemma scan_miss:
  "i < length chunk \<Longrightarrow> chunk ! i = 0 \<Longrightarrow> scan chunk stp i = scan chunk stp (i + stp)"
  by (subst scan.simps) simp

text \<open>With a stride of \<open>0\<close> the loop stays on a zero byte: no result is ever returned.\<close>

lemma scan_returns_moves:
  assumes "scan chunk s i = Some y"
  shows "s = 0 \<longrightarrow> \<not> (i < length chunk \<and> chunk ! i = 0)"
proof (rule scan.raw_induct[where P = "\<lambda>c s i y. s = 0 \<longrightarrow> \<not> (i < length c \<and> c ! i = 0)", OF _ assms])
  fix f :: "byte list \<Rightarrow> nat \<Rightarrow> nat \<Rightarrow> bool option" and c s i y
  assume ih: "\<And>c s i y. f c s i = Some y \<Longrightarrow> s = 0 \<longrightarrow> \<not> (i < length c \<and> c ! i = 0)"
    and unf: "(if i < length c then (if c ! i \<noteq> 0 then Some True else f c s (i + s))
               else Some False) = Some y"
  show "s = 0 \<longrightarrow> \<not> (i < length c \<and> c ! i = 0)"
  proof (intro impI notI)
    assume "s = 0" and z: "i < length c \<and> c ! i = 0"
    with unf have "f c 0 i = Some y" by simp
    from ih[OF this] z show False by simp
  qed
qed

lemma scan_stuck: "i < length chunk \<Longrightarrow> chunk ! i = 0 \<Longrightarrow> scan chunk 0 i = None"
  using scan_returns_moves[of chunk 0 i] by (cases "scan chunk 0 i") auto

text \<open>Every frame of 1 to 99 bytes has stride \<open>0\<close>; when its first byte is \<open>0\<close>, it is never classified.\<close>

lemma short_silent_frame_diverges:
  assumes "0 < length chunk" and "length chunk < 100" and "chunk ! 0 = 0"
  shows "containsAudio chunk = None"
proof -
  have "step (length chunk) = 0" using assms(2) by (simp add: step_def sampleSize_def)
  with assms(1,3) show ?thesis by (simp add: containsAudio_def scan_stuck)
qed

text \<open>With a positive stride the loop returns, and says whether a visited byte is non-zero.\<close>

lemma scan_total:
  "0 < s \<Longrightarrow>
   scan chunk s i = Some (\<exists>k. i + k * s < length chunk \<and> chunk ! (i + k * s) \<noteq> 0)"
proof (induction "length chunk - i" arbitrary: i rule: less_induct)
  case less
  show ?case
  proof (cases "i < length chunk")
    case False
    then have "\<not> (\<exists>k. i + k * s < length chunk \<and> chunk ! (i + k * s) \<noteq> 0)" by auto
    with False show ?thesis by (simp add: scan_end)
  next
    case True
    show ?thesis
    proof (cases "chunk ! i = 0")
      case False
      with True have "\<exists>k. i + k * s < length chunk \<and> chunk ! (i + k * s) \<noteq> 0"
        by (intro exI[of _ 0]) simp
      with True False show ?thesis by (simp add: scan_hit)
    next
      case z: True
      have lt: "length chunk - (i + s) < length chunk - i" using True less.prems by arith
      have "(\<exists>k. i + s + k * s < length chunk \<and> chunk ! (i + s + k * s) \<noteq> 0) =
            (\<exists>k. i + k * s < length chunk \<and> chunk ! (i + k * s) \<noteq> 0)" (is "?L = ?R")
      proof
        assume ?L
        then obtain k where "i + s + k * s < length chunk \<and> chunk ! (i + s + k * s) \<noteq> 0" ..
        then have "i + Suc k * s < length chunk \<and> chunk ! (i + Suc k * s) \<noteq> 0"
          by (simp add: add.assoc)
        then show ?R ..
      next
        assume ?R
        then obtain k where k: "i + k * s < length chunk \<and> chunk ! (i + k * s) \<noteq> 0" ..
        with z obtain j where "k = Suc j" by (cases k) auto
        with k have "i + s + j * s < length chunk \<and> chunk ! (i + s + j * s) \<noteq> 0"
          by (simp add: add.assoc)
        then show ?L ..
      qed
      with less.hyps[OF lt less.prems] True z show ?thesis by (simp add: scan_miss)
    qed
  qed
qed

lemma multiples_cover: "0 < s \<Longrightarrow> n \<le> length (filter (\<lambda>i. s dvd i) [0..<n]) * s"
proof (induction n)
  case 0
  then show ?case by simp
next
  case (Suc n)
  show ?case
  proof (cases "s dvd n")
    case True
    with Suc show ?thesis by simp
  next
    case False
    have "s dvd length (filter (\<lambda>i. s dvd i) [0..<n]) * s" by simp
    with False have "length (filter (\<lambda>i. s dvd i) [0..<n]) * s \<noteq> n" by metis
    with Suc False show ?thesis by simp
  qed
qed

lemma step_pos: "100 \<le> n \<Longrightarrow> 0 < step n"
  by (simp add: step_def sampleSize_def div_greater_zero_iff)

lemma step_le5: "100 \<le> n \<Longrightarrow> step n \<le> 5"
proof -
  assume n: "100 \<le> n"
  have "n < 6 * max 100 (n div 5)" using n by (simp add: max_def) arith
  then have "n div max 100 (n div 5) < 6" by (simp add: less_mult_imp_div_less mult.commute)
  then show ?thesis by (simp add: step_def sampleSize_def)
qed

lemma sampled_count:
  assumes "100 \<le> n"
  shows "max 100 (n div 5) \<le> length (sampledIdx n)" and "n \<le> 5 * length (sampledIdx n)"
proof -
  let ?c = "length (sampledIdx n)"
  have s: "0 < step n" "step n \<le> 5" using assms step_pos step_le5 by auto
  have c: "n \<le> ?c * step n" unfolding sampledIdx_def using multiples_cover[OF s(1)] .
  also have "\<dots> \<le> ?c * 5" using s(2) by simp
  finally show "n \<le> 5 * ?c" by simp
  have "step n * sampleSize n \<le> n" by (simp add: step_def)
  from this c have "step n * sampleSize n \<le> ?c * step n" by (rule order_trans)
  also have "?c * step n = step n * ?c" by (rule mult.commute)
  finally have "step n * sampleSize n \<le> step n * ?c" .
  with s(1) have "sampleSize n \<le> ?c" by (simp only: nat_mult_le_cancel1)
  then show "max 100 (n div 5) \<le> ?c" by (simp add: sampleSize_def)
qed

lemma sampled_set: "set (sampledIdx n) = {i. i < n \<and> step n dvd i}"
  by (auto simp: sampledIdx_def)

lemma classify_sampled:
  assumes "100 \<le> length chunk"
  shows "containsAudio chunk = Some (\<exists>i \<in> set (sampledIdx (length chunk)). chunk ! i \<noteq> 0)"
proof -
  let ?s = "step (length chunk)"
  have "(\<exists>k. 0 + k * ?s < length chunk \<and> chunk ! (0 + k * ?s) \<noteq> 0) =
        (\<exists>i \<in> set (sampledIdx (length chunk)). chunk ! i \<noteq> 0)"
    by (auto simp: sampled_set dvd_def mult.commute)
  with scan_total[OF step_pos[OF assms], of chunk 0] show ?thesis
    by (simp add: containsAudio_def)
qed

text \<open>
  Frames of at least 100 bytes are classified, and as active exactly when one of the
  sampled bytes is non-zero; the sampled positions are distinct positions of the
  frame, at least 100 of them and at least 20% of the frame.
\<close>

lemma containsAudio_sampled:
  assumes "100 \<le> length chunk"
  shows "containsAudio chunk = Some (\<exists>i \<in> set (sampledIdx (length chunk)). chunk ! i \<noteq> 0)
         \<and> distinct (sampledIdx (length chunk))
         \<and> (\<forall>i \<in> set (sampledIdx (length chunk)). i < length chunk)
         \<and> max 100 (length chunk div 5) \<le> length (sampledIdx (length chunk))
         \<and> length chunk \<le> 5 * length (sampledIdx (length chunk))"
  using classify_sampled[OF assms] sampled_count[OF assms]
  by (simp add: sampled_set) (simp add: sampledIdx_def)

text \<open>
  Claim C5 fails on the code. The two-byte frame \<open>[0, 7]\<close>, and the frame of 99 bytes
  that is \<open>0\<close> followed by 98 bytes \<open>1\<close>, are not classified at all: the stride is
  \<open>0\<close>, the loop stays on the zero byte at index \<open>0\<close> and never looks at the bytes
  that are not zero, so the handler does not return. The claim gives every frame a
  verdict, and for the second frame the verdict active.
\<close>

theorem containsAudio_short_frame_unclassified:
  "containsAudio [0, 7] = None
   \<and> onData env [0, 7] p = None
   \<and> containsAudio (0 # replicate 98 1) = None
   \<and> onData env (0 # replicate 98 1) p = None"
proof -
  have a: "containsAudio [0, 7] = None"
    by (rule short_silent_frame_diverges) simp_all
  have b: "containsAudio (0 # replicate 98 1) = None"
    by (rule short_silent_frame_diverges) simp_all
  from a b show ?thesis by (simp add: onData_def)
qed

text \<open>
  Claim C6 fails on the code: for the one-byte frame \<open>[0]\<close> the stride is \<open>0\<close>, the
  loop never leaves index \<open>0\<close>, and the handler does not return.
\<close>

theorem onData_zero_byte_diverges:
  "containsAudio [0] = None \<and> onData env [0] p = None"
  by (simp add: onData_def containsAudio_def step_def sampleSize_def scan_stuck)


section \<open>Properties of the voice-activity state\<close>

text \<open>
  One silent frame while speaking: the first one of a turn records its time; a later
  one ends the utterance when the recorded time lies more than the threshold back,
  and changes nothing otherwise. A silent frame while not speaking changes nothing.
\<close>

lemma segment_silent_frame:
  assumes "isSpeaking p"
  shows "(silenceStart p = None \<longrightarrow>
            segment env False p = (p\<lparr>silenceStart := Some (now env)\<rparr>, []))
       \<and> (silenceStart p = Some s \<and> s \<noteq> 0
            \<and> now env - s > silenceThreshold (silenceDuration env) \<longrightarrow>
            snd (segment env False p) = [SpeechFinished]
            \<and> \<not> isSpeaking (fst (segment env False p)))
       \<and> (silenceStart p = Some s \<and> s \<noteq> 0
            \<and> \<not> now env - s > silenceThreshold (silenceDuration env) \<longrightarrow>
            segment env False p = (p, []))"
  using assms by (simp add: segment_def endOfSpeech_def)

lemma segment_silent_idle: "\<not> isSpeaking p \<Longrightarrow> segment env False p = (p, [])"
  by (simp add: segment_def)

lemma speech_chunk: "containsAudio [120, 5, 9] = Some True"
  by (simp add: containsAudio_def scan_hit)

lemma silent_chunk: "containsAudio (replicate 100 0) = Some False"
  using classify_sampled[of "replicate 100 0"] by (simp add: sampled_set)

text \<open>
  Claim C1 fails on the code. With the default threshold of 2000 ms, a speaker sends
  a chunk with audio at 1000, one silent chunk (100 zero bytes) at 1100, audio again
  at 1200, one silent chunk at 3200 and audio at 3300. Both silence runs are single
  chunks, yet the chunk at 3200 ends the utterance: \<open>silenceStart\<close> still holds 1100,
  because no branch clears it when speech continues.
\<close>

theorem segment_stale_silenceStart:
  "map_option snd
     (deliver None True
        [(1000, [120, 5, 9]), (1100, replicate 100 0), (1200, [120, 5, 9]),
         (3200, replicate 100 0), (3300, [120, 5, 9])]
        (newPipeline sampleConn ''u1'' ''alice'' 900))
   = Some [SpeechStarted, SpeechFinished, SpeechStarted]"
  by (simp add: onData_def speech_chunk silent_chunk segment_def newPipeline_def
      silenceThreshold_def endOfSpeech_def)


section \<open>Properties of the registry\<close>

lemma setup_registered:
  "userAudioStreams w (joinGuildId c @ ''-'' @ uid) = Some h \<Longrightarrow>
   setupUserAudioReceiver c uid uname t ok w = w"
  by (simp add: setupUserAudioReceiver_def)

lemma setup_fresh:
  "userAudioStreams w (joinGuildId c @ ''-'' @ uid) = None \<Longrightarrow>
   userAudioStreams (setupUserAudioReceiver c uid uname t True w) (joinGuildId c @ ''-'' @ uid)
     = Some (nextStream w)
   \<and> nextStream (setupUserAudioReceiver c uid uname t True w) = nextStream w + 1
   \<and> pipelines (setupUserAudioReceiver c uid uname t True w)
     = (pipelines w)(nextStream w \<mapsto> newPipeline c uid uname t)"
  by (simp add: setupUserAudioReceiver_def Let_def)

lemma joinAll_registered:
  "userAudioStreams w (joinGuildId c @ ''-'' @ uid) = Some h \<Longrightarrow> joinAll c uid js w = w"
  by (induction js arbitrary: w) (auto simp: setup_registered)

lemma liveWorld_registered:
  "userAudioStreams liveWorld ''g1-u1'' = Some 0
   \<and> pipelines liveWorld 0 = Some (newPipeline sampleConn ''u1'' ''alice'' 1000)
   \<and> nextStream liveWorld = 1"
  by (simp add: liveWorld_def setupUserAudioReceiver_def emptyWorld_def sampleConn_def Let_def)

text \<open>
  Claim C7. When a stream is registered under the speaker's key, a call of
  \<open>setupUserAudioReceiver\<close> for that speaker, and any series of such calls, leaves
  the whole state as it is: no second receiver, the registered one untouched. When
  none is registered, a series of joins whose first \<open>subscribe\<close> succeeds creates
  exactly one receiver, the one registered afterwards.
\<close>

theorem one_pipeline_per_speaker:
  "(userAudioStreams w (joinGuildId c @ ''-'' @ uid) = Some h \<longrightarrow>
      setupUserAudioReceiver c uid uname t ok w = w \<and> joinAll c uid js w = w)
   \<and> (userAudioStreams w (joinGuildId c @ ''-'' @ uid) = None \<longrightarrow>
        userAudioStreams (joinAll c uid ((uname, t, True) # js) w) (joinGuildId c @ ''-'' @ uid)
          = Some (nextStream w)
        \<and> nextStream (joinAll c uid ((uname, t, True) # js) w) = nextStream w + 1
        \<and> pipelines (joinAll c uid ((uname, t, True) # js) w)
          = (pipelines w)(nextStream w \<mapsto> newPipeline c uid uname t))"
proof -
  have a: "joinAll c uid ((uname, t, True) # js) w = setupUserAudioReceiver c uid uname t True w"
    if "userAudioStreams w (joinGuildId c @ ''-'' @ uid) = None"
    using setup_fresh[OF that, of uname t] by (simp add: joinAll_registered)
  show ?thesis
    using setup_fresh[of w c uid uname t] a
    by (auto simp: setup_registered joinAll_registered)
qed

text \<open>
  Claim C7, witness: with the receiver of \<open>u1\<close> registered, three further joins
  change nothing; from the empty state, three joins create the one receiver \<open>0\<close>.
\<close>

theorem one_pipeline_per_speaker_witness:
  "userAudioStreams liveWorld (joinGuildId sampleConn @ ''-'' @ ''u1'') = Some 0
   \<and> setupUserAudioReceiver sampleConn ''u1'' ''bob'' 2000 True liveWorld = liveWorld
   \<and> joinAll sampleConn ''u1'' [(''bob'', 2000, True), (''al'', 2001, False)] liveWorld = liveWorld
   \<and> userAudioStreams emptyWorld (joinGuildId sampleConn @ ''-'' @ ''u1'') = None
   \<and> nextStream (joinAll sampleConn ''u1''
        [(''alice'', 1000, True), (''bob'', 2000, True), (''al'', 2001, False)] emptyWorld) = 1"
proof -
  have r: "userAudioStreams liveWorld (joinGuildId sampleConn @ ''-'' @ ''u1'') = Some 0"
    using liveWorld_registered by (simp add: sampleConn_def)
  have e: "userAudioStreams emptyWorld (joinGuildId sampleConn @ ''-'' @ ''u1'') = None"
    by (simp add: emptyWorld_def)
  have n: "nextStream emptyWorld = 0"
    by (simp add: emptyWorld_def)
  from r one_pipeline_per_speaker[of liveWorld sampleConn "''u1''" 0 "''bob''" 2000 True
          "[(''bob'', 2000, True), (''al'', 2001, False)]"]
  have a: "setupUserAudioReceiver sampleConn ''u1'' ''bob'' 2000 True liveWorld = liveWorld
     \<and> joinAll sampleConn ''u1'' [(''bob'', 2000, True), (''al'', 2001, False)] liveWorld = liveWorld"
    by blast
  from e one_pipeline_per_speaker[of emptyWorld sampleConn "''u1''" 0 "''alice''" 1000 True
          "[(''bob'', 2000, True), (''al'', 2001, False)]"]
  have "nextStream (joinAll sampleConn ''u1''
        [(''alice'', 1000, True), (''bob'', 2000, True), (''al'', 2001, False)] emptyWorld)
        = nextStream emptyWorld + 1"
    by blast
  with n have b: "nextStream (joinAll sampleConn ''u1''
        [(''alice'', 1000, True), (''bob'', 2000, True), (''al'', 2001, False)] emptyWorld) = 1"
    by (simp only:)
  from r e a b show ?thesis by blast
qed


section \<open>Properties of stale completions\<close>







section \<open>Properties of the dispatch\<close>

lemma transcribeAndSave_fulfilled:
  "\<exists>r. fst (transcribeAndSave env path ud cx st w) = Inr r"
  by (cases "transcribeAndSaveBody env path ud cx st w")
     (auto simp: transcribeAndSave_def split: sum.split)

lemma transcribeAndSave_directCalls:
  "directCalls (snd (transcribeAndSave env path ud cx st w)) = directCalls w"
  by (simp add: transcribeAndSave_def transcribeAndSaveBody_def Let_def
      split: option.split providerOutcome.split sum.split prod.split)

text \<open>
  The promise of \<open>transcribeAndSave\<close> is never rejected, so on the storage path the
  \<open>catch\<close> callback never runs: \<open>transcribeAudio\<close> is not called at all.
\<close>

lemma storage_path_never_falls_back:
  assumes "useMongo env"
  shows "directCalls (dispatchUtterance env ctx w) = directCalls w"
proof (cases "d_channel ctx")
  case None
  with assms show ?thesis by (simp add: dispatchUtterance_def)
next
  case (Some ch)
  obtain cid cname where ch: "ch = (cid, cname)" by (cases ch)
  let ?r = "transcribeAndSave env (currentOutputPath ctx)
              \<lparr>ud_userId = d_userId ctx, ud_username = d_username ctx,
               ud_displayName = d_displayName ctx\<rparr>
              \<lparr>cx_guildId = d_guildId ctx, cx_guildName = d_guildName ctx,
               cx_channelId = cid, cx_channelName = cname\<rparr>
              (currentStartTime ctx) w"
  obtain r where r: "?r = (Inr r, snd ?r)"
    using transcribeAndSave_fulfilled by (metis prod.collapse)
  have "directCalls (dispatchUtterance env ctx w) = directCalls (snd ?r)"
    using assms Some ch by (simp add: dispatchUtterance_def) (subst r, simp split: option.split)
  then show ?thesis by (simp add: transcribeAndSave_directCalls)
qed

text \<open>
  Claim C3 fails on the code. A recording of 5000 bytes is dispatched on the storage
  path. When the API request fails, and likewise when the API answers \<open>hi\<close> and the
  save of the transcription fails, one request has been sent, \<open>transcribeAudio\<close> has
  been called zero times (the claim says once) and nothing is posted.
\<close>

theorem no_fallback_after_failure:
  "directCalls (dispatchUtterance (sampleEnv alwaysFails) sampleCtx emptyWorld) = 0
   \<and> providerCalls (dispatchUtterance (sampleEnv alwaysFails) sampleCtx emptyWorld) = 1
   \<and> posts (dispatchUtterance (sampleEnv alwaysFails) sampleCtx emptyWorld) = []
   \<and> directCalls (dispatchUtterance ((sampleEnv alwaysHi)\<lparr>saveTranscriptionFails := True\<rparr>)
        sampleCtx emptyWorld) = 0
   \<and> providerCalls (dispatchUtterance ((sampleEnv alwaysHi)\<lparr>saveTranscriptionFails := True\<rparr>)
        sampleCtx emptyWorld) = 1
   \<and> posts (dispatchUtterance ((sampleEnv alwaysHi)\<lparr>saveTranscriptionFails := True\<rparr>)
        sampleCtx emptyWorld) = []"
  by (simp add: dispatchUtterance_def sampleEnv_def sampleCtx_def emptyWorld_def
      transcribeAndSave_def transcribeAndSaveBody_def alwaysFails_def alwaysHi_def Let_def)

lemma transcribeAndSave_small:
  "fileSize env = Some sz \<Longrightarrow> sz < 1000 \<Longrightarrow>
   transcribeAndSave env path ud cx st w = (Inr None, w)"
  by (simp add: transcribeAndSave_def transcribeAndSaveBody_def)

lemma transcribeAudio_small:
  "fileSize env = Some sz \<Longrightarrow> sz < 1000 \<Longrightarrow>
   transcribeAudio env path key w = (None, w\<lparr>directCalls := directCalls w + 1\<rparr>)"
  by (simp add: transcribeAudio_def Let_def)

text \<open>
  The later versions drop a recording smaller than 1000 bytes on both paths: the
  dispatch sends no request to the transcription API, stores nothing and posts
  nothing; \<open>transcribeAndSave\<close> and \<open>transcribeAudio\<close> both return \<open>null\<close> before
  any request.
\<close>

lemma small_recording_dropped:
  assumes "fileSize env = Some sz" and "sz < 1000"
  shows "providerCalls (dispatchUtterance env ctx w) = providerCalls w
       \<and> users (dispatchUtterance env ctx w) = users w
       \<and> posts (dispatchUtterance env ctx w) = posts w
       \<and> userSessions (dispatchUtterance env ctx w) = userSessions w
       \<and> fst (transcribeAndSave env path ud cx st w) = Inr None
       \<and> snd (transcribeAndSave env path ud cx st w) = w
       \<and> fst (transcribeAudio env path key w) = None
       \<and> providerCalls (snd (transcribeAudio env path key w)) = providerCalls w"
  using assms
  by (simp add: dispatchUtterance_def transcribeAndSave_small transcribeAudio_small
      handleTranscription_def split: option.split prod.split)

text \<open>
  Claim C4 fails on the code. The earlier versions have no size floor. A recording
  of 800 bytes, with an API that answers \<open>hi\<close>: on the storage path
  (\<open>transcribeAndSave\<close> of \<open>src/services/transcriptionService.js\<close>) one request is
  sent, the transcription is stored and the text is posted; on the direct path (the
  first \<open>transcribeAudio\<close>) one request is sent and the text is posted.
\<close>

theorem small_recording_dispatched_v1:
  "map_sum id providerCalls (dispatchUtterance_v1 smallEnv sampleCtx sessionWorld) = Inr 1
   \<and> map_sum id posts (dispatchUtterance_v1 smallEnv sampleCtx sessionWorld)
       = Inr [''**alice**: hi'']
   \<and> map_option stats (users (snd (transcribeAndSave_v1 smallEnv ''g1-u1-1000.wav''
         \<lparr>ud_userId = ''u1'', ud_username = ''alice'', ud_displayName = ''Alice''\<rparr>
         \<lparr>cx_guildId = ''g1'', cx_guildName = ''Guild'', cx_channelId = ''c1'',
          cx_channelName = ''General''\<rparr> 1000 sessionWorld)) ''u1'')
       = Some \<lparr>totalTranscriptions = 1, totalSpeakingTime = 3000, averageConfidence = 0\<rparr>
   \<and> map_sum id providerCalls
        (dispatchUtterance_v1 (smallEnv\<lparr>useMongo := False\<rparr>) sampleCtx sessionWorld) = Inr 1
   \<and> map_sum id posts
        (dispatchUtterance_v1 (smallEnv\<lparr>useMongo := False\<rparr>) sampleCtx sessionWorld)
       = Inr [''**alice**: hi'']"
  by (simp add: dispatchUtterance_v1_def transcribeAndSave_v1_def transcribeAndSaveBody_v1_def
      transcribeAudio_v1_def handleTranscription_def findOrCreateUser_def smallEnv_def
      sampleEnv_def sampleCtx_def sessionWorld_def emptyWorld_def alwaysHi_def
      addTranscription_def newUser_def Let_def)

lemma transcribeAndSave_provider_fails:
  assumes "\<forall>n. provider env n = ProviderFails"
  shows "fst (transcribeAndSave env path ud cx st w) = Inr None"
  using assms
  by (simp add: transcribeAndSave_def transcribeAndSaveBody_def split: option.split)

lemma transcribeAndSave_fails_frame:
  assumes "\<forall>n. provider env n = ProviderFails"
  shows "users (snd (transcribeAndSave env path ud cx st w)) = users w
   \<and> posts (snd (transcribeAndSave env path ud cx st w)) = posts w
   \<and> userSessions (snd (transcribeAndSave env path ud cx st w)) = userSessions w
   \<and> userAudioStreams (snd (transcribeAndSave env path ud cx st w)) = userAudioStreams w
   \<and> pipelines (snd (transcribeAndSave env path ud cx st w)) = pipelines w
   \<and> timeouts (snd (transcribeAndSave env path ud cx st w)) = timeouts w
   \<and> nextStream (snd (transcribeAndSave env path ud cx st w)) = nextStream w"
  using assms
  by (simp add: transcribeAndSave_def transcribeAndSaveBody_def split: option.split)

lemma transcribeAudio_provider_fails:
  assumes "\<forall>n. provider env n = ProviderFails"
  shows "fst (transcribeAudio env path key w) = None"
  using assms
  by (simp add: transcribeAudio_def Let_def split: option.split)

lemma transcribeAudio_frame:
  "users (snd (transcribeAudio env path key w)) = users w
   \<and> posts (snd (transcribeAudio env path key w)) = posts w
   \<and> userSessions (snd (transcribeAudio env path key w)) = userSessions w
   \<and> userAudioStreams (snd (transcribeAudio env path key w)) = userAudioStreams w
   \<and> pipelines (snd (transcribeAudio env path key w)) = pipelines w
   \<and> timeouts (snd (transcribeAudio env path key w)) = timeouts w
   \<and> nextStream (snd (transcribeAudio env path key w)) = nextStream w"
  by (simp add: transcribeAudio_def Let_def split: option.split providerOutcome.split)

text \<open>
  Claim C8. When every request to the transcription API fails (the first one and
  any further one), a dispatch on either path writes nothing to storage and posts
  nothing, and it leaves the session entries, the stream registry, the closures of
  all receivers (voice-activity state, watchdog, stream) and the pending timers as
  they are: the receiver goes on handling frames as before.
\<close>

theorem failed_dispatch_harmless:
  assumes "\<forall>n. provider env n = ProviderFails"
  shows "users (dispatchUtterance env ctx w) = users w
       \<and> posts (dispatchUtterance env ctx w) = posts w
       \<and> userSessions (dispatchUtterance env ctx w) = userSessions w
       \<and> userAudioStreams (dispatchUtterance env ctx w) = userAudioStreams w
       \<and> pipelines (dispatchUtterance env ctx w) = pipelines w
       \<and> timeouts (dispatchUtterance env ctx w) = timeouts w
       \<and> nextStream (dispatchUtterance env ctx w) = nextStream w"
proof (cases "useMongo env")
  case True
  show ?thesis
  proof (cases "d_channel ctx")
    case None
    with True show ?thesis by (simp add: dispatchUtterance_def)
  next
    case (Some ch)
    obtain cid cname where ch: "ch = (cid, cname)" by (cases ch)
    let ?r = "transcribeAndSave env (currentOutputPath ctx)
                \<lparr>ud_userId = d_userId ctx, ud_username = d_username ctx,
                 ud_displayName = d_displayName ctx\<rparr>
                \<lparr>cx_guildId = d_guildId ctx, cx_guildName = d_guildName ctx,
                 cx_channelId = cid, cx_channelName = cname\<rparr>
                (currentStartTime ctx) w"
    have r: "?r = (Inr None, snd ?r)"
      using transcribeAndSave_provider_fails[OF assms] by (metis prod.collapse)
    have "dispatchUtterance env ctx w = snd ?r"
      using True Some ch by (simp add: dispatchUtterance_def) (subst r, simp)
    with transcribeAndSave_fails_frame[OF assms] show ?thesis by simp
  qed
next
  case False
  let ?r = "transcribeAudio env (currentOutputPath ctx) (d_guildUserId ctx) w"
  have r: "?r = (None, snd ?r)"
    using transcribeAudio_provider_fails[OF assms] by (metis prod.collapse)
  have "dispatchUtterance env ctx w = snd ?r"
    using False by (simp add: dispatchUtterance_def) (subst r, simp add: handleTranscription_def)
  with transcribeAudio_frame[of env "currentOutputPath ctx" "d_guildUserId ctx" w]
  show ?thesis by simp
qed

text \<open>
  Claim C8, witness: the receiver of \<open>u1\<close> is live when a dispatch meets an API that
  fails every time; afterwards nothing is posted or stored, and stream \<open>0\<close> is still
  registered with its closure unchanged.
\<close>

theorem failed_dispatch_harmless_witness:
  "(\<forall>n. provider (sampleEnv alwaysFails) n = ProviderFails)
   \<and> posts (dispatchUtterance (sampleEnv alwaysFails) sampleCtx liveWorld) = posts liveWorld
   \<and> users (dispatchUtterance (sampleEnv alwaysFails) sampleCtx liveWorld) = users liveWorld
   \<and> userAudioStreams (dispatchUtterance (sampleEnv alwaysFails) sampleCtx liveWorld) ''g1-u1''
       = Some 0
   \<and> pipelines (dispatchUtterance (sampleEnv alwaysFails) sampleCtx liveWorld) 0
       = Some (newPipeline sampleConn ''u1'' ''alice'' 1000)"
proof -
  have f: "\<forall>n. provider (sampleEnv alwaysFails) n = ProviderFails"
    by (simp add: sampleEnv_def alwaysFails_def)
  from failed_dispatch_harmless[OF f, of sampleCtx liveWorld] f liveWorld_registered
  show ?thesis by simp
qed


section \<open>Properties of the stored statistics and the history\<close>

text \<open>
  Claim C9. Every call of \<open>addTranscription\<close> raises \<open>totalTranscriptions\<close> by 1 and
  \<open>totalSpeakingTime\<close> by the duration given (by 0 when none is given). The average
  confidence becomes (old average times old count plus the new score) over the new
  count when the score is given and non-zero, and stays as it is otherwise.
\<close>

theorem addTranscription_stats:
  "totalTranscriptions (stats (addTranscription t td u)) = totalTranscriptions (stats u) + 1
   \<and> totalSpeakingTime (stats (addTranscription t td u)) =
       totalSpeakingTime (stats u) + (case duration td of None \<Rightarrow> 0 | Some d \<Rightarrow> d)
   \<and> averageConfidence (stats (addTranscription t td u)) =
       (case confidenceScore td of
          None \<Rightarrow> averageConfidence (stats u)
        | Some c \<Rightarrow>
            if c = 0 then averageConfidence (stats u)
            else (averageConfidence (stats u) * of_int (totalTranscriptions (stats u)) + c)
                 / of_int (totalTranscriptions (stats u) + 1))"
  by (simp add: addTranscription_def Let_def split: option.split)

text \<open>
  Claim C9, witness: a first transcription of 1500 ms with score 80, then a second
  one of 1500 ms with score 0.
\<close>

theorem addTranscription_stats_witness:
  "stats (addTranscription 5000 (sampleData (Some 80)) (sampleUser []))
     = \<lparr>totalTranscriptions = 1, totalSpeakingTime = 1500, averageConfidence = 80\<rparr>
   \<and> stats (addTranscription 6000 (sampleData (Some 0))
        (addTranscription 5000 (sampleData (Some 80)) (sampleUser [])))
     = \<lparr>totalTranscriptions = 2, totalSpeakingTime = 3000, averageConfidence = 80\<rparr>"
  using addTranscription_stats[of 5000 "sampleData (Some 80)" "sampleUser []"]
  by (simp add: addTranscription_def sampleUser_def newUser_def sampleData_def Let_def)


lemma jsSlice_nonneg:
  "0 \<le> s \<Longrightarrow> 0 \<le> l \<Longrightarrow> jsSlice s (s + l) xs = take (nat l) (drop (nat s) xs)"
proof -
  assume s: "0 \<le> s" and l: "0 \<le> l"
  let ?len = "int (length xs)"
  show ?thesis
  proof (cases "s \<le> ?len")
    case True
    have "take (nat (min (s + l) ?len - s)) (drop (nat s) xs) = take (nat l) (drop (nat s) xs)"
    proof (cases "s + l \<le> ?len")
      case True
      then show ?thesis by (simp add: min_def)
    next
      case False
      with True s have "length (drop (nat s) xs) \<le> nat (?len - s)" "nat (?len - s) \<le> nat l"
        by auto
      with False True show ?thesis by (simp add: min_def)
    qed
    with True s l show ?thesis by (simp add: jsSlice_def Let_def min_def)
  next
    case False
    with s l show ?thesis by (simp add: jsSlice_def Let_def min_def)
  qed
qed

lemma newestFirst_sorted: "sorted_wrt (\<lambda>a b. timestamp a \<ge> timestamp b) (newestFirst ts)"
proof -
  have "sorted (map (\<lambda>t. - timestamp t) (newestFirst ts))"
    unfolding newestFirst_def by (rule sorted_sort_key)
  then show ?thesis by (simp add: sorted_map)
qed

lemma newestFirst_stable:
  "filter (\<lambda>t. timestamp t = k) (newestFirst ts) = filter (\<lambda>t. timestamp t = k) ts"
  using sort_key_stable[of "\<lambda>t. - timestamp t" "- k" ts] by (simp add: newestFirst_def)

lemma sorted_wrt_page: "sorted_wrt R xs \<Longrightarrow> sorted_wrt R (take n (drop m xs))"
  by (rule sorted_wrt_take) (rule sorted_wrt_drop)

lemma applyFilters_filter:
  "applyFilters opts ts =
     filter (\<lambda>t. (case o_guildId opts of None \<Rightarrow> True | Some g \<Rightarrow> g = [] \<or> guildId t = g)
               \<and> (case o_channelId opts of None \<Rightarrow> True | Some c \<Rightarrow> c = [] \<or> channelId t = c)
               \<and> (case startDate opts of None \<Rightarrow> True | Some d \<Rightarrow> d \<le> timestamp t)
               \<and> (case endDate opts of None \<Rightarrow> True | Some d \<Rightarrow> timestamp t \<le> d)) ts"
  by (auto simp: applyFilters_def Let_def split: option.splits intro: filter_cong)

text \<open>
  Claim C10, as the code has it, for a limit and a skip that are left out or not
  negative. With no stored user, and on a database error, the result is empty. For a
  stored user it is the page of the filtered transcriptions in newest-first order:
  \<open>skip\<close> entries (none by default) are passed over and at most \<open>L\<close> entries follow,
  where \<open>L\<close> is the limit given, or 100 when the limit is left out or is 0. The
  filters keep exactly the entries that match every filter given; the order is by
  descending timestamp, entries of equal timestamp staying in stored order.
\<close>

theorem getUserTranscriptions_page:
  assumes "case limit opts of None \<Rightarrow> True | Some l \<Rightarrow> 0 \<le> l"
      and "case skip opts of None \<Rightarrow> True | Some k \<Rightarrow> 0 \<le> k"
  shows "getUserTranscriptions True db uid opts = []
     \<and> (db uid = None \<longrightarrow> getUserTranscriptions False db uid opts = [])
     \<and> (\<forall>u. db uid = Some u \<longrightarrow>
          getUserTranscriptions False db uid opts =
            take (case limit opts of None \<Rightarrow> 100 | Some l \<Rightarrow> if l = 0 then 100 else nat l)
              (drop (case skip opts of None \<Rightarrow> 0 | Some k \<Rightarrow> nat k)
                (newestFirst (applyFilters opts (transcriptions u)))))
     \<and> length (getUserTranscriptions fails db uid opts)
          \<le> (case limit opts of None \<Rightarrow> 100 | Some l \<Rightarrow> if l = 0 then 100 else nat l)
     \<and> sorted_wrt (\<lambda>a b. timestamp a \<ge> timestamp b) (getUserTranscriptions fails db uid opts)
     \<and> filter (\<lambda>t. timestamp t = k) (newestFirst ts) = filter (\<lambda>t. timestamp t = k) ts
     \<and> applyFilters opts ts =
         filter (\<lambda>t. (case o_guildId opts of None \<Rightarrow> True | Some g \<Rightarrow> g = [] \<or> guildId t = g)
               \<and> (case o_channelId opts of None \<Rightarrow> True | Some c \<Rightarrow> c = [] \<or> channelId t = c)
               \<and> (case startDate opts of None \<Rightarrow> True | Some d \<Rightarrow> d \<le> timestamp t)
               \<and> (case endDate opts of None \<Rightarrow> True | Some d \<Rightarrow> timestamp t \<le> d)) ts"
proof -
  let ?L = "case limit opts of None \<Rightarrow> 100 | Some l \<Rightarrow> if l = 0 then 100 else nat l"
  let ?S = "case skip opts of None \<Rightarrow> 0 | Some k \<Rightarrow> nat k"
  have L: "0 \<le> pageLimit opts" "nat (pageLimit opts) = ?L"
    using assms(1) by (auto simp: pageLimit_def split: option.splits)
  have S: "0 \<le> pageSkip opts" "nat (pageSkip opts) = ?S"
    using assms(2) by (auto simp: pageSkip_def split: option.splits)
  have page: "jsSlice (pageSkip opts) (pageSkip opts + pageLimit opts) xs = take ?L (drop ?S xs)"
    for xs :: "transcription list"
    using jsSlice_nonneg[OF S(1) L(1), of xs] L(2) S(2) by simp
  have a: "getUserTranscriptions True db uid opts = []"
    by (simp add: getUserTranscriptions_def findOne_def)
  have b: "db uid = None \<longrightarrow> getUserTranscriptions False db uid opts = []"
    by (simp add: getUserTranscriptions_def findOne_def)
  have c: "\<forall>u. db uid = Some u \<longrightarrow>
          getUserTranscriptions False db uid opts =
            take ?L (drop ?S (newestFirst (applyFilters opts (transcriptions u))))"
    by (simp add: getUserTranscriptions_def findOne_def page)
  have d: "length (getUserTranscriptions fails db uid opts) \<le> ?L"
    by (simp add: getUserTranscriptions_def findOne_def page split: option.split)
  have e: "sorted_wrt (\<lambda>a b. timestamp a \<ge> timestamp b)
             (getUserTranscriptions fails db uid opts)"
    by (simp add: getUserTranscriptions_def findOne_def page sorted_wrt_page newestFirst_sorted
        split: option.split)
  from a b c d e newestFirst_stable[of k ts] applyFilters_filter[of opts ts]
  show ?thesis by blast
qed

text \<open>
  Claim C10, witness: three stored transcriptions with timestamps 10, 30 and 20, a
  limit of 2 and a skip of 1: the page holds the entries of 20 and 10.
\<close>

theorem getUserTranscriptions_page_witness:
  "(case limit (noOptions\<lparr>limit := Some 2, skip := Some 1\<rparr>) of None \<Rightarrow> True | Some l \<Rightarrow> 0 \<le> l)
   \<and> (case skip (noOptions\<lparr>limit := Some 2, skip := Some 1\<rparr>) of None \<Rightarrow> True | Some k \<Rightarrow> 0 \<le> k)
   \<and> map timestamp (getUserTranscriptions False (sampleDb [10, 30, 20]) ''u1''
         (noOptions\<lparr>limit := Some 2, skip := Some 1\<rparr>)) = [20, 10]
   \<and> length (getUserTranscriptions False (sampleDb [10, 30, 20]) ''u1''
         (noOptions\<lparr>limit := Some 2, skip := Some 1\<rparr>)) \<le> 2"
proof -
  have h1: "case limit (noOptions\<lparr>limit := Some 2, skip := Some 1\<rparr>) of
              None \<Rightarrow> True | Some l \<Rightarrow> 0 \<le> l"
    by simp
  have h2: "case skip (noOptions\<lparr>limit := Some 2, skip := Some 1\<rparr>) of
              None \<Rightarrow> True | Some k \<Rightarrow> 0 \<le> k"
    by simp
  have u: "sampleDb [10, 30, 20] ''u1'' = Some (sampleUser [10, 30, 20])"
    by (simp add: sampleDb_def)
  have n: "map timestamp (take 2 (drop 1 (newestFirst (applyFilters
             (noOptions\<lparr>limit := Some 2, skip := Some 1\<rparr>)
             (transcriptions (sampleUser [10, 30, 20])))))) = [20, 10]"
    by (simp add: noOptions_def sampleUser_def newUser_def sampleTranscription_def
        castTranscription_def applyFilters_def newestFirst_def)
  from getUserTranscriptions_page[OF h1 h2, of "sampleDb [10, 30, 20]" "''u1''" False] u n
  have "map timestamp (getUserTranscriptions False (sampleDb [10, 30, 20]) ''u1''
         (noOptions\<lparr>limit := Some 2, skip := Some 1\<rparr>)) = [20, 10]
     \<and> length (getUserTranscriptions False (sampleDb [10, 30, 20]) ''u1''
         (noOptions\<lparr>limit := Some 2, skip := Some 1\<rparr>)) \<le> 2"
    by simp
  with h1 h2 show ?thesis by blast
qed

text \<open>
  Claim C10, counterexample. With three stored transcriptions, a limit of \<open>-1\<close> gives
  two entries and a limit of \<open>0\<close> gives all three: more than the limit in both cases.
\<close>

theorem getUserTranscriptions_limit_counterexample:
  "map timestamp (getUserTranscriptions False (sampleDb [10, 30, 20]) ''u1''
      (noOptions\<lparr>limit := Some (- 1)\<rparr>)) = [30, 20]
   \<and> map timestamp (getUserTranscriptions False (sampleDb [10, 30, 20]) ''u1''
      (noOptions\<lparr>limit := Some 0\<rparr>)) = [30, 20, 10]"
  by (simp add: getUserTranscriptions_def findOne_def pageLimit_def pageSkip_def noOptions_def
      sampleDb_def sampleUser_def newUser_def sampleTranscription_def castTranscription_def
      applyFilters_def newestFirst_def jsSlice_def)

end
